theory Spec2Isabelle
  imports Complex_Main
begin

section \<open>Expression trees of main.cpp\<close>

text \<open>
  The classes \<open>constant\<close>, \<open>variable\<close>, \<open>add\<close>, \<open>sub\<close>, \<open>mul\<close>, \<open>pow\<close>, \<open>div\<close> and
  \<open>ln\<close> derive from \<open>base_expr\<close>; an expression is one constructor per class. Nodes are
  never mutated, so a shared pointer is modelled by the tree it points to, and
  "returns the operand itself" is equality of trees; a \<open>new constant(0)\<close> is the tree
  \<open>Constant (Num 0)\<close>.
\<close>

subsection \<open>The values of constants\<close>

text \<open>
  A \<open>double\<close> is either the real number it denotes, \<open>Num r\<close>, where \<open>Num 0\<close> is the
  positive zero, or the negative zero \<open>Minus_zero\<close>. The literals \<open>0\<close>, \<open>1\<close> and \<open>2\<close>
  of the source are \<open>Num 0\<close>, \<open>Num 1\<close> and \<open>Num 2\<close>. The comparison \<open>v == k\<close> of
  the source is \<open>real_of v = k\<close>: both zeros compare equal to \<open>0\<close>. Not-a-number and
  the infinities are outside the model.
\<close>

datatype double = Num real | Minus_zero

primrec real_of :: "double \<Rightarrow> real" where
  "real_of (Num r) = r"
| "real_of Minus_zero = 0"

text \<open>
  \<open>+\<close> and \<open>-\<close> on \<open>double\<close>, taken without rounding. A zero result has the sign that
  round-to-nearest arithmetic gives it: the sum is the negative zero only for
  \<open>-0 + -0\<close>, the difference only for \<open>-0 - +0\<close>.
\<close>

definition double_add :: "double \<Rightarrow> double \<Rightarrow> double" where
  "double_add a b =
     (if real_of a + real_of b \<noteq> 0 then Num (real_of a + real_of b)
      else if a = Minus_zero \<and> b = Minus_zero then Minus_zero
      else Num 0)"

definition double_sub :: "double \<Rightarrow> double \<Rightarrow> double" where
  "double_sub a b =
     (if real_of a - real_of b \<noteq> 0 then Num (real_of a - real_of b)
      else if a = Minus_zero \<and> b = Num 0 then Minus_zero
      else Num 0)"

subsection \<open>Expressions and outcomes\<close>

datatype expr =
    Constant double
  | Variable string
  | Add expr expr
  | Sub expr expr
  | Mul expr expr
  | Pow expr expr
  | Div expr expr
  | Ln expr

text \<open>
  What a call can do besides returning: throw \<open>std::runtime_error\<close> with a message,
  or run into undefined behaviour (control reaches the end of \<open>variable::diff\<close> or
  \<open>pow::diff\<close> without a \<open>return\<close>; \<open>variable::diff\<close> casts an expression that is
  not a variable).
\<close>

datatype error = Runtime_error string | Undefined_behaviour

abbreviation DivisionByZero :: error where
  "DivisionByZero \<equiv> Runtime_error ''math error: attempted to divide by zero''"

abbreviation LogOfZero :: error where
  "LogOfZero \<equiv> Runtime_error ''math error: argument of ln is zero''"

text \<open>\<open>is_constant()\<close>: overridden to true by \<open>constant\<close> only.\<close>

fun is_constant :: "expr \<Rightarrow> bool" where
  "is_constant (Constant v) = True"
| "is_constant e = False"

text \<open>
  \<open>dynamic_cast<constant *>(p.get())->value()\<close>. The source reads it only behind an
  \<open>is_constant()\<close> test, so only the \<open>constant\<close> case has an equation.
\<close>

primrec val :: "expr \<Rightarrow> double" where
  "val (Constant v) = v"

text \<open>
  \<open>constant::E\<close> is the \<open>double\<close> that the literal \<open>2.718281828459045\<close> denotes, and the
  bound in \<open>is_const_e()\<close> the \<open>double\<close> that the literal \<open>0.0000000001\<close> denotes: the
  multiples of \<open>2^-51\<close> and of \<open>2^-86\<close> with a 53-bit numerator that lie nearest to
  the decimal fractions (\<open>E_literal\<close> and \<open>tolerance_literal\<close> below).
\<close>

definition E :: real where
  "E = 6121026514868073 / 2 ^ 51"

definition tolerance :: real where
  "tolerance = 7737125245533627 / 2 ^ 86"

text \<open>
  \<open>is_const_e()\<close>: \<open>fabs(val - E) < 0.0000000001\<close>. The source rounds \<open>val - E\<close>; the
  comparison comes out the same without rounding. Where the exact difference is below
  the bound, \<open>val\<close> lies between \<open>E / 2\<close> and \<open>2 * E\<close> and the subtraction of two such
  doubles is exact; where it is not below the bound, rounding, which is monotone and
  leaves the bound itself unchanged, cannot bring it below.
\<close>

definition is_const_e :: "double \<Rightarrow> bool" where
  "is_const_e v \<longleftrightarrow> \<bar>real_of v - E\<bar> < tolerance"

subsection \<open>The \<open>create\<close> functions\<close>

definition add_create :: "expr \<Rightarrow> expr \<Rightarrow> expr" where
  "add_create lhs rhs =
     (if is_constant lhs \<and> real_of (val lhs) = 0 then rhs
      else if is_constant rhs \<and> real_of (val rhs) = 0 then lhs
      else Add lhs rhs)"

definition sub_create :: "expr \<Rightarrow> expr \<Rightarrow> expr" where
  "sub_create lhs rhs =
     (if is_constant rhs \<and> real_of (val rhs) = 0 then lhs
      else Sub lhs rhs)"

definition mul_create :: "expr \<Rightarrow> expr \<Rightarrow> expr" where
  "mul_create lhs rhs =
     (if is_constant lhs \<and> real_of (val lhs) = 0 then Constant (Num 0)
      else if is_constant lhs \<and> real_of (val lhs) = 1 then rhs
      else if is_constant rhs \<and> real_of (val rhs) = 0 then Constant (Num 0)
      else if is_constant rhs \<and> real_of (val rhs) = 1 then lhs
      else Mul lhs rhs)"

definition pow_create :: "expr \<Rightarrow> expr \<Rightarrow> expr" where
  "pow_create lhs rhs =
     (if \<not> is_constant lhs \<and> is_constant rhs then
        (if real_of (val rhs) = 0 then Constant (Num 1)
         else if real_of (val rhs) = 1 then lhs
         else Pow lhs rhs)
      else Pow lhs rhs)"

definition div_create :: "expr \<Rightarrow> expr \<Rightarrow> error + expr" where
  "div_create lhs rhs =
     (if is_constant rhs \<and> real_of (val rhs) = 0 then Inl DivisionByZero
      else if is_constant rhs \<and> real_of (val rhs) = 1 then Inr lhs
      else if is_constant lhs \<and> real_of (val lhs) = 0 then Inr (Constant (Num 0))
      else Inr (Div lhs rhs))"

definition ln_create :: "expr \<Rightarrow> error + expr" where
  "ln_create value =
     (if is_constant value then
        (if real_of (val value) = 0 then Inl LogOfZero
         else if is_const_e (val value) then Inr (Constant (Num 1))
         else Inr (Ln value))
      else Inr (Ln value))"

subsection \<open>Differentiation\<close>

text \<open>
  \<open>diff(dv)\<close>, one equation per override. An exception or undefined behaviour in a
  child's \<open>diff\<close> ends the call, in the order of the source's statements. The
  \<open>add\<close> and \<open>sub\<close> overrides build their result with \<open>new add\<close>, the others with
  the \<open>create\<close> functions.
\<close>

fun diff :: "expr \<Rightarrow> expr \<Rightarrow> error + expr" where
  "diff (Constant v) dv = Inr (Constant (Num 0))"
| "diff (Variable name) dv =
     (case dv of
        Variable other \<Rightarrow>
          if name = other then Inr (Constant (Num 1)) else Inl Undefined_behaviour
      | _ \<Rightarrow> Inl Undefined_behaviour)"
| "diff (Add lhs rhs) dv =
     (case diff lhs dv of
        Inl err \<Rightarrow> Inl err
      | Inr lhs_d \<Rightarrow>
          (case diff rhs dv of
             Inl err \<Rightarrow> Inl err
           | Inr rhs_d \<Rightarrow>
               if is_constant lhs_d \<and> is_constant rhs_d
               then Inr (Constant (double_add (val lhs_d) (val rhs_d)))
               else Inr (Add lhs_d rhs_d)))"
| "diff (Sub lhs rhs) dv =
     (case diff lhs dv of
        Inl err \<Rightarrow> Inl err
      | Inr lhs_d \<Rightarrow>
          (case diff rhs dv of
             Inl err \<Rightarrow> Inl err
           | Inr rhs_d \<Rightarrow>
               if is_constant lhs_d \<and> is_constant rhs_d
               then Inr (Constant (double_sub (val lhs_d) (val rhs_d)))
               else Inr (Add lhs_d rhs_d)))"
| "diff (Mul lhs rhs) dv =
     (case diff lhs dv of
        Inl err \<Rightarrow> Inl err
      | Inr lhs_d \<Rightarrow>
          (case diff rhs dv of
             Inl err \<Rightarrow> Inl err
           | Inr rhs_d \<Rightarrow>
               Inr (add_create (mul_create lhs rhs_d) (mul_create lhs_d rhs))))"
| "diff (Div lhs rhs) dv =
     (case diff lhs dv of
        Inl err \<Rightarrow> Inl err
      | Inr lhs_d \<Rightarrow>
          (case diff rhs dv of
             Inl err \<Rightarrow> Inl err
           | Inr rhs_d \<Rightarrow>
               div_create
                 (sub_create (mul_create lhs rhs_d) (mul_create rhs_d lhs))
                 (pow_create rhs (Constant (Num 2)))))"
| "diff (Ln value) dv =
     (case diff value dv of
        Inl err \<Rightarrow> Inl err
      | Inr value_d \<Rightarrow>
          (case div_create (Constant (Num 1)) value of
             Inl err \<Rightarrow> Inl err
           | Inr q \<Rightarrow> Inr (mul_create q value_d)))"
| "diff (Pow lhs rhs) dv =
     (if \<not> is_constant lhs \<and> is_constant rhs then
        (case diff lhs dv of
           Inl err \<Rightarrow> Inl err
         | Inr lhs_d \<Rightarrow>
             Inr (mul_create
                    (mul_create rhs
                       (pow_create lhs (Constant (double_sub (val rhs) (Num 1)))))
                    lhs_d))
      else if is_constant lhs \<and> \<not> is_constant rhs then
        (case diff rhs dv of
           Inl err \<Rightarrow> Inl err
         | Inr rhs_d \<Rightarrow>
             (case ln_create lhs of
                Inl err \<Rightarrow> Inl err
              | Inr l \<Rightarrow> Inr (mul_create (mul_create (pow_create lhs rhs) l) rhs_d)))
      else Inl Undefined_behaviour)"

subsection \<open>Rendering\<close>

text \<open>
  \<open>display(os)\<close> appends to the stream; the model returns the appended text. A
  constant is written by the standard library's \<open>operator<<\<close> for \<open>double\<close>, which
  is not code of this program: it is the parameter \<open>fmt\<close>.
\<close>

fun display :: "(double \<Rightarrow> string) \<Rightarrow> expr \<Rightarrow> string" where
  "display fmt (Constant v) = fmt v"
| "display fmt (Variable name) = name"
| "display fmt (Add lhs rhs) = ''('' @ display fmt lhs @ '' + '' @ display fmt rhs @ '')''"
| "display fmt (Sub lhs rhs) = ''('' @ display fmt lhs @ '' - '' @ display fmt rhs @ '')''"
| "display fmt (Mul lhs rhs) = ''('' @ display fmt lhs @ '' * '' @ display fmt rhs @ '')''"
| "display fmt (Pow lhs rhs) = ''('' @ display fmt lhs @ '' ^ '' @ display fmt rhs @ '')''"
| "display fmt (Div lhs rhs) = ''('' @ display fmt lhs @ '' / '' @ display fmt rhs @ '')''"
| "display fmt (Ln value) = '' ln('' @ display fmt value @ '')''"

text \<open>
  The decimal digits of a natural number, and with them a formatter that writes a whole
  number from 0 to 999999 as the stream's default formatting of a \<open>double\<close> does (six
  significant digits, no decimal point when nothing follows it), and the negative zero
  as \<open>-0\<close>. The constants of \<open>main\<close> and of its derivatives are such numbers.
\<close>

fun digits :: "nat \<Rightarrow> string" where
  "digits n =
     (if n < 10 then [''0123456789'' ! n]
      else digits (n div 10) @ [''0123456789'' ! (n mod 10)])"

declare digits.simps [simp del]

definition whole_number :: "double \<Rightarrow> string" where
  "whole_number v = (case v of Num r \<Rightarrow> digits (nat \<lfloor>r\<rfloor>) | Minus_zero \<Rightarrow> ''-0'')"

text \<open>
  The first expression of \<open>main\<close>: \<open>x\<close>, \<open>c1\<close>, \<open>c2\<close>, \<open>c3\<close> and \<open>pow1\<close>, that is
  \<open>5 * x^69 + 5 * x^420\<close>, built with the \<open>create\<close> functions.
\<close>

definition pow1 :: expr where
  "pow1 =
     (let x = Variable ''x''; c1 = Constant (Num 69); c2 = Constant (Num 420);
          c3 = Constant (Num 5)
      in add_create (mul_create c3 (pow_create x c1)) (mul_create c3 (pow_create x c2)))"

section \<open>Helper facts\<close>


lemma pow_diff_no_return:
  "is_constant b = is_constant e \<Longrightarrow> diff (Pow b e) x = Inl Undefined_behaviour"
  by simp

lemma pow1_tree:
  "pow1 = Add (Mul (Constant (Num 5)) (Pow (Variable ''x'') (Constant (Num 69))))
              (Mul (Constant (Num 5)) (Pow (Variable ''x'') (Constant (Num 420))))"
  by (simp add: pow1_def Let_def add_create_def mul_create_def pow_create_def)

lemma diff_pow1:
  "diff pow1 (Variable ''x'') =
     Inr (Add (Mul (Constant (Num 5))
                   (Mul (Constant (Num 69)) (Pow (Variable ''x'') (Constant (Num 68)))))
              (Mul (Constant (Num 5))
                   (Mul (Constant (Num 420)) (Pow (Variable ''x'') (Constant (Num 419))))))"
  by (simp add: pow1_tree add_create_def mul_create_def pow_create_def double_sub_def)

lemma whole_number_main:
  "whole_number (Num 5) = ''5''" "whole_number (Num 69) = ''69''"
  "whole_number (Num 68) = ''68''" "whole_number (Num 420) = ''420''"
  "whole_number (Num 419) = ''419''"
  by (simp_all add: whole_number_def digits.simps)

text \<open>
  The two constants against their literals: each is a 53-bit numerator over a power of
  two and lies less than half a unit of its last binary place from the decimal fraction.
\<close>

lemma E_literal:
  "(2::nat) ^ 52 \<le> 6121026514868073 \<and> (6121026514868073::nat) < 2 ^ 53
   \<and> \<bar>E - 2.718281828459045\<bar> < 1 / 2 ^ 52"
  by (simp add: E_def)

lemma tolerance_literal:
  "(2::nat) ^ 52 \<le> 7737125245533627 \<and> (7737125245533627::nat) < 2 ^ 53
   \<and> \<bar>tolerance - 0.0000000001\<bar> < 1 / 2 ^ 87"
  by (simp add: tolerance_def)

text \<open>
  The program's constant \<open>E\<close> against the number \<open>e\<close>: the partial sum of the
  exponential series up to \<open>1 / 19!\<close> and its remainder enclose \<open>exp 1\<close>.
\<close>

lemma exp_one_partial_sum:
  "(\<Sum>m<20. 1 / fact m) < exp (1::real)
   \<and> exp (1::real) \<le> (\<Sum>m<20. 1 / fact m) + 3 / fact 20"
proof -
  obtain t :: real where t: "\<bar>t\<bar> \<le> \<bar>1::real\<bar>"
    and e: "exp (1::real) = (\<Sum>m<20. 1 ^ m / fact m) + exp t / fact 20 * 1 ^ 20"
    using Maclaurin_exp_le [of 1 20] by blast
  have "exp t \<le> exp (1::real)" using t by simp
  also have "\<dots> \<le> 3" by (rule exp_le)
  finally have up: "exp t / fact 20 \<le> 3 / (fact 20 :: real)"
    by (simp add: divide_right_mono)
  have lo: "0 < exp t / (fact 20 :: real)" by simp
  from e have e': "exp (1::real) = (\<Sum>m<20. 1 / fact m) + exp t / fact 20" by simp
  show ?thesis using up lo unfolding e' by linarith
qed

lemma sum20_lower: "2.71828182845904523 < (\<Sum>m<20. 1 / fact m :: real)"
  by (simp add: eval_nat_numeral lessThan_Suc fact_reduce)

lemma sum20_upper: "(\<Sum>m<20. 1 / fact m :: real) + 3 / fact 20 < 2.71828182845904524"
  by (simp add: eval_nat_numeral lessThan_Suc fact_reduce)

lemma exp_one_bounds: "2.71828182845904523 < exp (1::real) \<and> exp (1::real) < 2.71828182845904524"
  using exp_one_partial_sum sum20_lower sum20_upper by linarith

lemma E_below_exp_one: "E < exp 1 \<and> exp 1 - E < 2 / 10 ^ 16"
proof -
  have "E < 2.71828182845904523" "2.71828182845904524 - E < 2 / 10 ^ 16"
    by (simp_all add: E_def)
  then show ?thesis using exp_one_bounds by linarith
qed

lemma real_of_one_iff: "real_of d = 1 \<longleftrightarrow> d = Num 1"
  by (cases d) simp_all








lemma within_tolerance_nonzero: "\<bar>real_of c - E\<bar> < tolerance \<Longrightarrow> real_of c \<noteq> 0"
  by (auto simp: E_def tolerance_def)

lemma ln_create_tolerance:
  "ln_create (Constant c) = Inr (Constant (Num 1)) \<longleftrightarrow> \<bar>real_of c - E\<bar> < tolerance"
  using within_tolerance_nonzero [of c] by (auto simp: ln_create_def is_const_e_def)

section \<open>Differentiation of quotients, sums, differences and powers\<close>

text \<open>
  C1. For a quotient node with numerator \<open>u\<close> and denominator \<open>v\<close> whose derivatives
  with respect to \<open>x\<close> are \<open>u'\<close> and \<open>v'\<close>, \<open>diff\<close> returns exactly
  \<open>div::create(sub::create(mul::create(u, v'), mul::create(v', u)), pow::create(v, constant(2)))\<close>:
  the numerator is \<open>u * v' - v' * u\<close>, and \<open>u'\<close> does not occur in the result.
\<close>

theorem div_diff_numerator:
  assumes "diff u x = Inr u'" and "diff v x = Inr v'"
  shows "diff (Div u v) x =
           div_create (sub_create (mul_create u v') (mul_create v' u))
                      (pow_create v (Constant (Num 2)))"
  using assms by simp

theorem div_diff_numerator_witness:
  "diff (Variable ''x'') (Variable ''x'') = Inr (Constant (Num 1))
   \<and> diff (Pow (Variable ''x'') (Constant (Num 3))) (Variable ''x'')
       = Inr (Mul (Constant (Num 3)) (Pow (Variable ''x'') (Constant (Num 2))))
   \<and> diff (Div (Variable ''x'') (Pow (Variable ''x'') (Constant (Num 3)))) (Variable ''x'')
       = Inr (Div (Sub (Mul (Variable ''x'')
                            (Mul (Constant (Num 3)) (Pow (Variable ''x'') (Constant (Num 2)))))
                       (Mul (Mul (Constant (Num 3)) (Pow (Variable ''x'') (Constant (Num 2))))
                            (Variable ''x'')))
                  (Pow (Pow (Variable ''x'') (Constant (Num 3))) (Constant (Num 2))))"
proof -
  have u: "diff (Variable ''x'') (Variable ''x'') = Inr (Constant (Num 1))" by simp
  have v: "diff (Pow (Variable ''x'') (Constant (Num 3))) (Variable ''x'')
       = Inr (Mul (Constant (Num 3)) (Pow (Variable ''x'') (Constant (Num 2))))"
    by (simp add: mul_create_def pow_create_def double_sub_def)
  show ?thesis
    using div_diff_numerator [OF u v] u v
    by (simp add: div_create_def sub_create_def mul_create_def pow_create_def)
qed

text \<open>
  C2. The claim: every result of \<open>diff\<close> is simplified by the \<open>create\<close> functions, and
  a sum whose child derivatives are not both constants differentiates to
  \<open>add::create(lhs_d, rhs_d)\<close>, so a zero left derivative disappears. The source's
  \<open>add::diff\<close> ends in \<open>new add(lhs_d, rhs_d)\<close>: for \<open>5 + x^2\<close>, built with the \<open>create\<close>
  functions, the derivative with respect to \<open>x\<close> is the node \<open>0 + 2 * x\<close>, where
  \<open>add::create\<close> on the same two derivatives gives \<open>2 * x\<close>.
\<close>

theorem add_diff_raw_sum:
  "diff (add_create (Constant (Num 5)) (pow_create (Variable ''x'') (Constant (Num 2))))
        (Variable ''x'')
     = Inr (Add (Constant (Num 0)) (Mul (Constant (Num 2)) (Variable ''x'')))
   \<and> add_create (Constant (Num 0)) (Mul (Constant (Num 2)) (Variable ''x''))
     = Mul (Constant (Num 2)) (Variable ''x'')"
  by (simp add: add_create_def mul_create_def pow_create_def double_sub_def)

text \<open>
  C3. The claim: differentiating a power whose base and exponent are both non-constant,
  or both constant, fails with an error. In the source neither \<open>if\<close> of \<open>pow::diff\<close> is
  taken and control reaches the end of the function: no exception is thrown and no value
  is returned. Evaluated here at \<open>x ^ y\<close> and at \<open>2 ^ 3\<close>, differentiated with respect to
  \<open>x\<close>.
\<close>

theorem pow_diff_both_variables:
  "diff (pow_create (Variable ''x'') (Variable ''y'')) (Variable ''x'') = Inl Undefined_behaviour
   \<and> diff (pow_create (Constant (Num 2)) (Constant (Num 3))) (Variable ''x'')
       = Inl Undefined_behaviour"
  by (simp add: pow_create_def)



section \<open>The \<open>create\<close> functions on zero and one\<close>

text \<open>
  C6. \<open>div::create(X, constant(0))\<close> throws the division-by-zero error for every \<open>X\<close>,
  also for \<open>X = constant(0)\<close> (the test of the right operand comes first), and the
  call yields no node. A negative zero as divisor throws as well.
\<close>

theorem div_create_zero_divisor:
  "div_create X (Constant (Num 0)) = Inl DivisionByZero
   \<and> div_create (Constant (Num 0)) (Constant (Num 0)) = Inl DivisionByZero
   \<and> \<not> (\<exists>node. div_create X (Constant (Num 0)) = Inr node)
   \<and> div_create X (Constant Minus_zero) = Inl DivisionByZero"
  by (simp add: div_create_def)

text \<open>
  C8. The claim: \<open>mul::create(X, constant(1))\<close> returns \<open>X\<close> itself for every \<open>X\<close>. For
  \<open>X = constant(-0.0)\<close> the test of the left operand for zero comes first and the
  source returns a \<open>new constant(0)\<close>, the positive zero.
\<close>

theorem mul_create_minus_zero_counterexample:
  "mul_create (Constant Minus_zero) (Constant (Num 1)) = Constant (Num 0)
   \<and> Constant (Num 0) \<noteq> Constant Minus_zero"
  by (simp add: mul_create_def)

text \<open>
  C8, as the source has it: \<open>mul::create\<close> with \<open>constant(0)\<close> on either side returns
  \<open>constant(0)\<close>; with \<open>constant(1)\<close> on the left it returns the right operand; with
  \<open>constant(1)\<close> on the right it returns the left operand \<open>X\<close>, unless \<open>X\<close> is a constant
  equal to zero, where the result is a \<open>new constant(0)\<close>. The left operand is tested
  before the right one: a negative zero on the left of \<open>constant(1)\<close> gives
  \<open>constant(0)\<close>, and \<open>constant(1)\<close> on the left of a negative zero gives the negative
  zero. Testing the right operand first would give the opposite results in both.
\<close>

theorem mul_create_zero_one:
  "mul_create (Constant (Num 0)) X = Constant (Num 0)
   \<and> mul_create X (Constant (Num 0)) = Constant (Num 0)
   \<and> mul_create (Constant (Num 1)) X = X
   \<and> mul_create X (Constant (Num 1)) =
       (if is_constant X \<and> real_of (val X) = 0 then Constant (Num 0) else X)
   \<and> mul_create (Constant Minus_zero) (Constant (Num 1)) = Constant (Num 0)
   \<and> mul_create (Constant (Num 1)) (Constant Minus_zero) = Constant Minus_zero"
  by (cases X) (auto simp: mul_create_def real_of_one_iff)



section \<open>The natural logarithm\<close>

text \<open>
  C7. The claim: \<open>ln::create(constant(c))\<close> returns \<open>constant(1)\<close> for every \<open>c\<close> less
  than \<open>1 / 10^10\<close> away from the number \<open>e\<close>. The \<open>double\<close> \<open>6121026515093253 / 2^51\<close>
  is less than \<open>1 / 10^10\<close> away from \<open>exp 1\<close>, but not from \<open>E\<close>, and
  \<open>ln::create\<close> returns its \<open>ln\<close> node.
\<close>

theorem ln_create_near_e_counterexample:
  "\<bar>real_of (Num (6121026515093253 / 2 ^ 51)) - exp 1\<bar> < 1 / 10 ^ 10
   \<and> ln_create (Constant (Num (6121026515093253 / 2 ^ 51)))
       = Inr (Ln (Constant (Num (6121026515093253 / 2 ^ 51))))"
proof -
  have "(6121026515093253 / 2 ^ 51 :: real) - 1 / 10 ^ 10 < 2.71828182845904523"
    and "(2.71828182845904524 :: real) < 6121026515093253 / 2 ^ 51 + 1 / 10 ^ 10"
    by simp_all
  then have near: "\<bar>6121026515093253 / 2 ^ 51 - exp (1::real)\<bar> < 1 / 10 ^ 10"
    using exp_one_bounds by linarith
  have "\<not> \<bar>(6121026515093253 / 2 ^ 51 :: real) - E\<bar> < tolerance"
    by (simp add: E_def tolerance_def)
  then have "ln_create (Constant (Num (6121026515093253 / 2 ^ 51)))
       = Inr (Ln (Constant (Num (6121026515093253 / 2 ^ 51))))"
    by (simp add: ln_create_def is_const_e_def)
  with near show ?thesis by simp
qed

text \<open>
  C7, as the source has it: \<open>ln::create(constant(0))\<close> throws the log-of-zero error (for
  either zero), and \<open>ln::create(constant(c))\<close> returns \<open>constant(1)\<close> for every \<open>c\<close> with
  \<open>fabs(c - E) < 0.0000000001\<close>, where \<open>E\<close> is the program's constant, which lies below
  \<open>exp 1\<close> by less than \<open>2 / 10^16\<close>.
\<close>

theorem ln_create_zero_and_e:
  "ln_create (Constant (Num 0)) = Inl LogOfZero
   \<and> ln_create (Constant Minus_zero) = Inl LogOfZero
   \<and> (\<bar>real_of c - E\<bar> < tolerance \<longrightarrow> ln_create (Constant c) = Inr (Constant (Num 1)))
   \<and> E < exp 1 \<and> exp 1 - E < 2 / 10 ^ 16"
  using ln_create_tolerance [of c] E_below_exp_one by (simp add: ln_create_def)

theorem ln_create_zero_and_e_witness:
  "\<bar>real_of (Num 2.71828182846) - E\<bar> < tolerance
   \<and> ln_create (Constant (Num 2.71828182846)) = Inr (Constant (Num 1))
   \<and> ln_create (Constant (Num E)) = Inr (Constant (Num 1))"
proof -
  have h: "\<bar>real_of (Num 2.71828182846) - E\<bar> < tolerance"
    by (simp add: E_def tolerance_def)
  have h': "\<bar>real_of (Num E) - E\<bar> < tolerance"
    by (simp add: tolerance_def)
  show ?thesis
    using ln_create_zero_and_e [of "Num 2.71828182846"] ln_create_zero_and_e [of "Num E"] h h'
    by simp
qed

text \<open>
  C10. For every constant \<open>c\<close> that is not zero and not within the tolerance of \<open>E\<close>, and
  so for every negative \<open>c\<close>, \<open>ln::create(constant(c))\<close> returns the \<open>ln\<close> node of that
  constant; \<open>ln::create\<close> throws for a constant equal to zero and for no other
  expression.
\<close>

theorem ln_create_accepts_nonzero:
  "(real_of c \<noteq> 0 \<and> \<not> \<bar>real_of c - E\<bar> < tolerance
      \<longrightarrow> ln_create (Constant c) = Inr (Ln (Constant c)))
   \<and> (real_of c < 0 \<longrightarrow> ln_create (Constant c) = Inr (Ln (Constant c)))
   \<and> ((\<exists>err. ln_create a = Inl err) \<longleftrightarrow> is_constant a \<and> real_of (val a) = 0)"
proof -
  have "\<not> \<bar>real_of c - E\<bar> < tolerance" if "real_of c < 0"
    using that by (auto simp: E_def tolerance_def)
  moreover have "(\<exists>err. ln_create a = Inl err) \<longleftrightarrow> is_constant a \<and> real_of (val a) = 0"
    by (cases a) (auto simp: ln_create_def)
  ultimately show ?thesis
    by (auto simp: ln_create_def is_const_e_def)
qed

theorem ln_create_accepts_nonzero_witness:
  "real_of (Num (-1)) \<noteq> 0 \<and> \<not> \<bar>real_of (Num (-1)) - E\<bar> < tolerance \<and> real_of (Num (-1)) < 0
   \<and> ln_create (Constant (Num (-1))) = Inr (Ln (Constant (Num (-1))))
   \<and> ln_create (Constant (Num (6121026514642893 / 2 ^ 51)))
       = Inr (Ln (Constant (Num (6121026514642893 / 2 ^ 51))))"
proof -
  have h: "\<not> \<bar>real_of (Num (-1)) - E\<bar> < tolerance"
    by (simp add: E_def tolerance_def)
  have k: "real_of (Num (6121026514642893 / 2 ^ 51)) \<noteq> 0"
    "\<not> \<bar>real_of (Num (6121026514642893 / 2 ^ 51)) - E\<bar> < tolerance"
    by (simp_all add: E_def tolerance_def)
  show ?thesis
    using ln_create_accepts_nonzero [of "Num (-1)"]
      ln_create_accepts_nonzero [of "Num (6121026514642893 / 2 ^ 51)"] h k
    by simp
qed

section \<open>The first expression of \<open>main\<close>\<close>

text \<open>
  C5. The claim: the derivative of \<open>pow1 = 5 * x^69 + 5 * x^420\<close> with respect to \<open>x\<close>
  renders as \<open>((69 * (5 * (x ^ 68))) + (420 * (5 * (x ^ 419))))\<close>. The source renders it as
  \<open>((5 * (69 * (x ^ 68))) + (5 * (420 * (x ^ 419))))\<close>: \<open>pow::diff\<close> puts the exponent
  before the power, and \<open>mul::diff\<close> puts the factor \<open>5\<close> before the derivative of the
  power. The two texts differ.
\<close>

theorem diff_pow1_rendered_counterexample:
  "map_sum id (display whole_number) (diff pow1 (Variable ''x''))
     = Inr ''((5 * (69 * (x ^ 68))) + (5 * (420 * (x ^ 419))))''
   \<and> ''((5 * (69 * (x ^ 68))) + (5 * (420 * (x ^ 419))))''
     \<noteq> ''((69 * (5 * (x ^ 68))) + (420 * (5 * (x ^ 419))))''"
  by (simp add: diff_pow1 whole_number_main)

text \<open>
  C5, as the source has it: with any number formatting that writes the whole numbers 5,
  69, 68, 420 and 419 in decimal digits, the derivative of \<open>pow1\<close> with respect to \<open>x\<close>
  exists and renders as \<open>((5 * (69 * (x ^ 68))) + (5 * (420 * (x ^ 419))))\<close>.
\<close>

theorem diff_pow1_rendered:
  assumes "fmt (Num 5) = ''5''" and "fmt (Num 69) = ''69''" and "fmt (Num 68) = ''68''"
    and "fmt (Num 420) = ''420''" and "fmt (Num 419) = ''419''"
  shows "map_sum id (display fmt) (diff pow1 (Variable ''x''))
           = Inr ''((5 * (69 * (x ^ 68))) + (5 * (420 * (x ^ 419))))''"
  using assms by (simp add: diff_pow1)

theorem diff_pow1_rendered_witness:
  "whole_number (Num 5) = ''5'' \<and> whole_number (Num 69) = ''69''
   \<and> whole_number (Num 68) = ''68'' \<and> whole_number (Num 420) = ''420''
   \<and> whole_number (Num 419) = ''419''
   \<and> map_sum id (display whole_number) (diff pow1 (Variable ''x''))
       = Inr ''((5 * (69 * (x ^ 68))) + (5 * (420 * (x ^ 419))))''"
  using diff_pow1_rendered [of whole_number] by (simp add: whole_number_main)

end
